theory Spec2Isabelle
  imports Main "HOL-Library.FSet" "HOL-Library.Multiset"
begin

section \<open>What the server sends\<close>

text \<open>
  Both scripts talk to the backend through \<^verbatim>\<open>fetch\<close> and read the reply with
  \<^verbatim>\<open>response.json()\<close>. A reply is seen by the scripts only through the status flag
  \<^verbatim>\<open>response.ok\<close> and through the properties they read from the decoded value, so a
  decoded value is modelled by the record of exactly those properties; \<open>None\<close> is a
  property that reads as \<^verbatim>\<open>undefined\<close> (absent, or the value is not an object).
  A property that is present has the type the backend contract gives it.
  The value \<^verbatim>\<open>null\<close> is kept apart, because reading a property of it throws.
\<close>

record question =
  qid :: int
  is_public :: bool

record body =
  total_questions :: "int option"
  unlocked_question :: "int option"
  questions :: "question list option"
  question_text :: "string option"      \<comment> \<open>property \<^verbatim>\<open>question\<close>\<close>
  options :: "string list option"
  image_name :: "string option"         \<comment> \<open>property \<^verbatim>\<open>image\<close>\<close>
  error_text :: "string option"         \<comment> \<open>property \<^verbatim>\<open>error\<close>\<close>
  correct :: "bool option"

datatype decoded =
    Not_json        \<comment> \<open>\<^verbatim>\<open>response.json()\<close> rejects\<close>
  | Json_null       \<comment> \<open>\<^verbatim>\<open>response.json()\<close> resolves to \<^verbatim>\<open>null\<close>\<close>
  | Json body

datatype response =
    Rejected                \<comment> \<open>\<^verbatim>\<open>fetch\<close> rejects: no response obtained\<close>
  | Response bool decoded   \<comment> \<open>the flag is \<^verbatim>\<open>response.ok\<close>\<close>

datatype request =
    Get_status              \<comment> \<open>\<^verbatim>\<open>/api/status\<close>\<close>
  | Get_all_questions       \<comment> \<open>\<^verbatim>\<open>/api/status/all_questions\<close>\<close>
  | Get_question int        \<comment> \<open>\<^verbatim>\<open>/api/question/${q_id}\<close>\<close>
  | Post_answer int string  \<comment> \<open>\<^verbatim>\<open>POST /api/answer\<close> with \<^verbatim>\<open>{q_id, answer}\<close>\<close>

section \<open>The page\<close>

text \<open>
  The texts the scripts write are Japanese literals; each literal is one constructor.
  \<open>Server_error e\<close> is the text \<^verbatim>\<open>errorData.error\<close> taken from a reply.
\<close>

datatype notice =
    No_notice          \<comment> \<open>the empty text\<close>
  | Already_answered   \<comment> \<open>script.js line 82, static/script.js line 74\<close>
  | Correct_notice     \<comment> \<open>script.js line 166\<close>
  | Incorrect_notice   \<comment> \<open>script.js line 170\<close>
  | Submit_error       \<comment> \<open>script.js line 183\<close>
  | Load_error         \<comment> \<open>script.js line 141\<close>
  | Server_error string

datatype qtext =
    Bare_label int                    \<comment> \<open>the label with the number \<^verbatim>\<open>q_id\<close> only\<close>
  | Full_label int "string option"    \<comment> \<open>the label, a colon and \<^verbatim>\<open>data.question\<close>\<close>

datatype btn_label =
    Open_label int       \<comment> \<open>the label with the number only\<close>
  | Closed_label int     \<comment> \<open>script.js line 64: the label with the non-public mark\<close>
  | Locked_label int     \<comment> \<open>static/script.js line 59: the label with the locked mark\<close>

record question_btn =
  btn_text :: btn_label
  btn_classes :: "string list"
  btn_disabled :: bool
  btn_onclick :: "int option"    \<comment> \<open>\<open>Some q\<close> is the handler \<^verbatim>\<open>() => loadQuestion(q)\<close>\<close>

record option_btn =
  opt_text :: string
  opt_disabled :: bool
  opt_onclick :: "int \<times> string"  \<comment> \<open>the handler \<^verbatim>\<open>() => submitAnswer(q_id, option)\<close>\<close>

datatype log_entry =
    Err_fetching_status
  | Err_updating_list
  | Err_loading int
  | Err_loading_server int "string option"
  | Err_submitting
  | Err_checking_clear

text \<open>
  A pending \<^verbatim>\<open>await fetch(...)\<close> is recorded by the function that waits for it.
\<close>

datatype cont =
    K_checkStatus
  | K_updateQuestionList
  | K_loadQuestion int
  | K_submitAnswer int string
  | K_checkClearCondition

text \<open>
  The two variables of the script, the six elements it holds, the image it inserts, and
  the browser's side: the fetches in flight, the log of requests sent, the pending
  \<^verbatim>\<open>setTimeout\<close> callbacks (their due times; the script has one callback only), the
  time, and the console.
\<close>

record page =
  totalQuestions :: "int option"
  correctAnswers :: "int fset"
  questionListDiv :: "question_btn list"
  quizContainer_hidden :: bool
  quiz_image :: "string option"
  questionText :: qtext
  optionsContainer :: "option_btn list"
  resultMessage_text :: notice
  resultMessage_class :: string
  clearMessage_hidden :: bool
  awaiting :: "cont list"
  requests :: "request list"
  timeouts :: "nat list"
  clock :: nat
  console :: "log_entry list"

definition fetch :: "request \<Rightarrow> cont \<Rightarrow> page \<Rightarrow> page" where
  "fetch req k s = s\<lparr>awaiting := awaiting s @ [k], requests := requests s @ [req]\<rparr>"

definition console_error :: "log_entry \<Rightarrow> page \<Rightarrow> page" where
  "console_error e s = s\<lparr>console := console s @ [e]\<rparr>"

definition setTimeout :: "nat \<Rightarrow> page \<Rightarrow> page" where
  "setTimeout d s = s\<lparr>timeouts := timeouts s @ [clock s + d]\<rparr>"

text \<open>\<^verbatim>\<open>document.querySelectorAll('.option-btn').forEach(btn => btn.disabled = v)\<close>\<close>

definition set_disabled :: "bool \<Rightarrow> page \<Rightarrow> page" where
  "set_disabled v s =
     s\<lparr>optionsContainer := map (\<lambda>b. b\<lparr>opt_disabled := v\<rparr>) (optionsContainer s)\<rparr>"

text \<open>The callback of \<^verbatim>\<open>setTimeout\<close> (script.js lines 172-175).\<close>

definition reenable :: "page \<Rightarrow> page" where
  "reenable s = (set_disabled False s)\<lparr>resultMessage_text := No_notice\<rparr>"

text \<open>Assigning \<^verbatim>\<open>undefined\<close> or the empty string to \<^verbatim>\<open>textContent\<close> leaves no text.\<close>

definition server_notice :: "string option \<Rightarrow> notice" where
  "server_notice e =
     (case e of None \<Rightarrow> No_notice | Some t \<Rightarrow> if t = [] then No_notice else Server_error t)"

section \<open>script.js\<close>

text \<open>
  An \<^verbatim>\<open>async\<close> function runs up to its first \<^verbatim>\<open>await\<close> when it is called and
  the rest when the fetch settles. \<open>f\<close> is the part run at the call, \<open>f_k\<close> the part
  run with the settled reply. \<^verbatim>\<open>await fetch\<close> and the \<^verbatim>\<open>await response.json()\<close>
  after it are one step: nothing between them reads or writes the page.
\<close>

definition question_button :: "int fset \<Rightarrow> question \<Rightarrow> question_btn" where
  "question_button answered q =
     (if is_public q
      then \<lparr>btn_text = Open_label (qid q),
            btn_classes = ''question-btn'' # (if qid q |\<in>| answered then [''answered''] else []),
            btn_disabled = False,
            btn_onclick = Some (qid q)\<rparr>
      else \<lparr>btn_text = Closed_label (qid q),
            btn_classes = [''question-btn'', ''locked''],
            btn_disabled = True,
            btn_onclick = None\<rparr>)"

definition updateQuestionList :: "int option \<Rightarrow> int option \<Rightarrow> page \<Rightarrow> page" where
  "updateQuestionList publicCount totalCount s =
     fetch Get_all_questions K_updateQuestionList (s\<lparr>questionListDiv := []\<rparr>)"

definition updateQuestionList_k :: "response \<Rightarrow> page \<Rightarrow> page" where
  "updateQuestionList_k r s =
     (case r of
        Rejected \<Rightarrow> console_error Err_updating_list s
      | Response ok dec \<Rightarrow>
          if \<not> ok then console_error Err_updating_list s
          else (case dec of
                  Not_json \<Rightarrow> console_error Err_updating_list s
                | Json_null \<Rightarrow> console_error Err_updating_list s
                | Json d \<Rightarrow>
                    (case questions d of
                       None \<Rightarrow> console_error Err_updating_list s
                     | Some qs \<Rightarrow>
                         s\<lparr>questionListDiv := questionListDiv s @
                              map (question_button (correctAnswers s)) (sort_key qid qs)\<rparr>)))"

definition checkStatus :: "page \<Rightarrow> page" where
  "checkStatus s = fetch Get_status K_checkStatus s"

definition checkStatus_k :: "response \<Rightarrow> page \<Rightarrow> page" where
  "checkStatus_k r s =
     (case r of
        Rejected \<Rightarrow> console_error Err_fetching_status s
      | Response ok dec \<Rightarrow>
          (case dec of
             Not_json \<Rightarrow> console_error Err_fetching_status s
           | Json_null \<Rightarrow> console_error Err_fetching_status s
           | Json d \<Rightarrow>
               updateQuestionList (unlocked_question d) (total_questions d)
                 (s\<lparr>totalQuestions := total_questions d\<rparr>)))"

text \<open>The \<^verbatim>\<open>catch\<close> block of \<^verbatim>\<open>loadQuestion\<close> (script.js lines 139-146).\<close>

definition load_failed :: "int \<Rightarrow> page \<Rightarrow> page" where
  "load_failed q_id s =
     (console_error (Err_loading q_id) s)
       \<lparr>resultMessage_text := Load_error,
        resultMessage_class := ''incorrect'',
        quizContainer_hidden := False,
        optionsContainer := [],
        questionText := Bare_label q_id\<rparr>"

definition loadQuestion :: "int \<Rightarrow> page \<Rightarrow> page" where
  "loadQuestion q_id s =
     (if q_id |\<in>| correctAnswers s
      then s\<lparr>resultMessage_text := Already_answered,
             resultMessage_class := [],
             quizContainer_hidden := False,
             optionsContainer := [],
             quiz_image := None,
             questionText := Bare_label q_id\<rparr>
      else fetch (Get_question q_id) (K_loadQuestion q_id) s)"

definition option_button :: "int \<Rightarrow> string \<Rightarrow> option_btn" where
  "option_button q_id opt = \<lparr>opt_text = opt, opt_disabled = False, opt_onclick = (q_id, opt)\<rparr>"

definition loadQuestion_k :: "int \<Rightarrow> response \<Rightarrow> page \<Rightarrow> page" where
  "loadQuestion_k q_id r s =
     (case r of
        Rejected \<Rightarrow> load_failed q_id s
      | Response ok dec \<Rightarrow>
          if \<not> ok
          then (case dec of
                  Not_json \<Rightarrow> load_failed q_id s
                | Json_null \<Rightarrow> load_failed q_id s
                | Json e \<Rightarrow>
                    (console_error (Err_loading_server q_id (error_text e)) s)
                      \<lparr>resultMessage_text := server_notice (error_text e),
                       resultMessage_class := ''incorrect'',
                       quizContainer_hidden := False,
                       optionsContainer := [],
                       questionText := Bare_label q_id,
                       quiz_image := None\<rparr>)
          else (case dec of
                  Not_json \<Rightarrow> load_failed q_id s
                | Json_null \<Rightarrow> load_failed q_id (s\<lparr>quiz_image := None\<rparr>)
                | Json d \<Rightarrow>
                    (let s1 = s\<lparr>quiz_image :=
                                  (case image_name d of
                                     None \<Rightarrow> None
                                   | Some i \<Rightarrow> if i = [] then None
                                              else Some (''/static/images/'' @ i)),
                                questionText := Full_label q_id (question_text d),
                                optionsContainer := [],
                                resultMessage_text := No_notice\<rparr>
                     in case options d of
                          None \<Rightarrow> load_failed q_id s1
                        | Some os \<Rightarrow>
                            s1\<lparr>optionsContainer := map (option_button q_id) os,
                               quizContainer_hidden := False\<rparr>)))"

definition checkClearCondition :: "page \<Rightarrow> page" where
  "checkClearCondition s = fetch Get_status K_checkClearCondition s"

definition checkClearCondition_k :: "response \<Rightarrow> page \<Rightarrow> page" where
  "checkClearCondition_k r s =
     (case r of
        Rejected \<Rightarrow> console_error Err_checking_clear s
      | Response ok dec \<Rightarrow>
          (case dec of
             Not_json \<Rightarrow> console_error Err_checking_clear s
           | Json_null \<Rightarrow> console_error Err_checking_clear s
           | Json d \<Rightarrow>
               (let currentPublicCount = unlocked_question d
                in if (case currentPublicCount of
                         None \<Rightarrow> False
                       | Some n \<Rightarrow> 0 < n \<and> int (fcard (correctAnswers s)) = n)
                   then s\<lparr>quizContainer_hidden := True, clearMessage_hidden := False\<rparr>
                   else s\<lparr>clearMessage_hidden := True\<rparr>)))"

text \<open>The \<^verbatim>\<open>catch\<close> block of \<^verbatim>\<open>submitAnswer\<close> (script.js lines 181-185).\<close>

definition submit_failed :: "page \<Rightarrow> page" where
  "submit_failed s =
     (console_error Err_submitting s)
       \<lparr>resultMessage_text := Submit_error, resultMessage_class := ''incorrect''\<rparr>"

definition submitAnswer :: "int \<Rightarrow> string \<Rightarrow> page \<Rightarrow> page" where
  "submitAnswer q_id answer s = fetch (Post_answer q_id answer) (K_submitAnswer q_id answer) s"

text \<open>What \<^verbatim>\<open>submitAnswer\<close> does with a decoded verdict (script.js lines 163-176).\<close>

definition verdict :: "int \<Rightarrow> body \<Rightarrow> page \<Rightarrow> page" where
  "verdict q_id d s =
     (let s1 = set_disabled True s
      in if correct d = Some True
         then s1\<lparr>resultMessage_text := Correct_notice,
                 resultMessage_class := ''correct'',
                 correctAnswers := finsert q_id (correctAnswers s1)\<rparr>
         else setTimeout 2000
                (s1\<lparr>resultMessage_text := Incorrect_notice,
                    resultMessage_class := ''incorrect''\<rparr>))"

definition submitAnswer_k :: "int \<Rightarrow> string \<Rightarrow> response \<Rightarrow> page \<Rightarrow> page" where
  "submitAnswer_k q_id answer r s =
     (case r of
        Rejected \<Rightarrow> submit_failed s
      | Response ok dec \<Rightarrow>
          (case dec of
             Not_json \<Rightarrow> submit_failed s
           | Json_null \<Rightarrow> submit_failed (set_disabled True s)
           | Json d \<Rightarrow> checkStatus (checkClearCondition (verdict q_id d s))))"

section \<open>static/script.js\<close>

text \<open>
  The second script has the same \<^verbatim>\<open>checkStatus\<close>, the same verdict handling and the
  same timer; its list is drawn from the two counts, its \<^verbatim>\<open>catch\<close> blocks only write
  to the console, and its \<^verbatim>\<open>checkClearCondition\<close> reads the variable
  \<^verbatim>\<open>totalQuestions\<close> and sends nothing.
\<close>

definition static_question_button :: "int option \<Rightarrow> int fset \<Rightarrow> int \<Rightarrow> question_btn" where
  "static_question_button unlockedCount answered i =
     (if (case unlockedCount of None \<Rightarrow> False | Some u \<Rightarrow> i \<le> u)
      then \<lparr>btn_text = Open_label i,
            btn_classes = ''question-btn'' # (if i |\<in>| answered then [''answered''] else []),
            btn_disabled = False,
            btn_onclick = Some i\<rparr>
      else \<lparr>btn_text = Locked_label i,
            btn_classes = [''question-btn'', ''locked''],
            btn_disabled = True,
            btn_onclick = None\<rparr>)"

text \<open>
  The loop \<^verbatim>\<open>for (let i = 1; i <= totalCount; i++)\<close>; a comparison with
  \<^verbatim>\<open>undefined\<close> is false, so the loop body never runs without a count.
\<close>

definition static_updateQuestionList :: "int option \<Rightarrow> int option \<Rightarrow> page \<Rightarrow> page" where
  "static_updateQuestionList unlockedCount totalCount s =
     s\<lparr>questionListDiv :=
         map (static_question_button unlockedCount (correctAnswers s))
           (case totalCount of None \<Rightarrow> [] | Some n \<Rightarrow> [1..n])\<rparr>"

definition static_checkStatus :: "page \<Rightarrow> page" where
  "static_checkStatus s = fetch Get_status K_checkStatus s"

definition static_checkStatus_k :: "response \<Rightarrow> page \<Rightarrow> page" where
  "static_checkStatus_k r s =
     (case r of
        Rejected \<Rightarrow> console_error Err_fetching_status s
      | Response ok dec \<Rightarrow>
          (case dec of
             Not_json \<Rightarrow> console_error Err_fetching_status s
           | Json_null \<Rightarrow> console_error Err_fetching_status s
           | Json d \<Rightarrow>
               static_updateQuestionList (unlocked_question d) (total_questions d)
                 (s\<lparr>totalQuestions := total_questions d\<rparr>)))"

definition static_loadQuestion :: "int \<Rightarrow> page \<Rightarrow> page" where
  "static_loadQuestion q_id s =
     (if q_id |\<in>| correctAnswers s
      then s\<lparr>resultMessage_text := Already_answered,
             resultMessage_class := [],
             quizContainer_hidden := False,
             optionsContainer := [],
             questionText := Bare_label q_id\<rparr>
      else fetch (Get_question q_id) (K_loadQuestion q_id) s)"

definition static_loadQuestion_k :: "int \<Rightarrow> response \<Rightarrow> page \<Rightarrow> page" where
  "static_loadQuestion_k q_id r s =
     (case r of
        Rejected \<Rightarrow> console_error (Err_loading q_id) s
      | Response ok dec \<Rightarrow>
          if \<not> ok then console_error (Err_loading q_id) s
          else (case dec of
                  Not_json \<Rightarrow> console_error (Err_loading q_id) s
                | Json_null \<Rightarrow> console_error (Err_loading q_id) s
                | Json d \<Rightarrow>
                    (let s1 = s\<lparr>questionText := Full_label q_id (question_text d),
                                optionsContainer := [],
                                resultMessage_text := No_notice\<rparr>
                     in case options d of
                          None \<Rightarrow> console_error (Err_loading q_id) s1
                        | Some os \<Rightarrow>
                            s1\<lparr>optionsContainer := map (option_button q_id) os,
                               quizContainer_hidden := False\<rparr>)))"

definition static_checkClearCondition :: "page \<Rightarrow> page" where
  "static_checkClearCondition s =
     (if (case totalQuestions s of
            None \<Rightarrow> False
          | Some n \<Rightarrow> 0 < n \<and> int (fcard (correctAnswers s)) = n)
      then s\<lparr>quizContainer_hidden := True, clearMessage_hidden := False\<rparr>
      else s)"

definition static_submitAnswer :: "int \<Rightarrow> string \<Rightarrow> page \<Rightarrow> page" where
  "static_submitAnswer q_id answer s =
     fetch (Post_answer q_id answer) (K_submitAnswer q_id answer) s"

definition static_submitAnswer_k :: "int \<Rightarrow> string \<Rightarrow> response \<Rightarrow> page \<Rightarrow> page" where
  "static_submitAnswer_k q_id answer r s =
     (case r of
        Rejected \<Rightarrow> console_error Err_submitting s
      | Response ok dec \<Rightarrow>
          (case dec of
             Not_json \<Rightarrow> console_error Err_submitting s
           | Json_null \<Rightarrow> console_error Err_submitting (set_disabled True s)
           | Json d \<Rightarrow> static_checkStatus (static_checkClearCondition (verdict q_id d s))))"

section \<open>The event loop\<close>

text \<open>
  Whatever runs, runs to its next \<^verbatim>\<open>await\<close> before anything else does. The events
  are: the \<^verbatim>\<open>setInterval\<close> callback, a click on the \<open>i\<close>-th button of the list
  or of the options (a disabled button gets no click), the \<open>i\<close>-th fetch in flight
  settling with a reply, the \<open>i\<close>-th pending \<^verbatim>\<open>setTimeout\<close> callback running (never
  before it is due), and time passing. Fetches settle in any order.
\<close>

datatype event =
    Tick
  | Click_question nat
  | Click_option nat
  | Settle nat response
  | Timeout nat
  | Advance nat

definition drop_nth :: "nat \<Rightarrow> 'a list \<Rightarrow> 'a list" where
  "drop_nth i xs = take i xs @ drop (Suc i) xs"

definition resume :: "cont \<Rightarrow> response \<Rightarrow> page \<Rightarrow> page" where
  "resume k r s =
     (case k of
        K_checkStatus \<Rightarrow> checkStatus_k r s
      | K_updateQuestionList \<Rightarrow> updateQuestionList_k r s
      | K_loadQuestion q \<Rightarrow> loadQuestion_k q r s
      | K_submitAnswer q a \<Rightarrow> submitAnswer_k q a r s
      | K_checkClearCondition \<Rightarrow> checkClearCondition_k r s)"

definition step :: "event \<Rightarrow> page \<Rightarrow> page" where
  "step e s =
     (case e of
        Tick \<Rightarrow> checkStatus s
      | Click_question i \<Rightarrow>
          if i < length (questionListDiv s) \<and> \<not> btn_disabled (questionListDiv s ! i)
          then (case btn_onclick (questionListDiv s ! i) of
                  None \<Rightarrow> s
                | Some q \<Rightarrow> loadQuestion q s)
          else s
      | Click_option i \<Rightarrow>
          if i < length (optionsContainer s) \<and> \<not> opt_disabled (optionsContainer s ! i)
          then (case opt_onclick (optionsContainer s ! i) of
                  (q, a) \<Rightarrow> submitAnswer q a s)
          else s
      | Settle i r \<Rightarrow>
          if i < length (awaiting s)
          then resume (awaiting s ! i) r (s\<lparr>awaiting := drop_nth i (awaiting s)\<rparr>)
          else s
      | Timeout i \<Rightarrow>
          if i < length (timeouts s) \<and> timeouts s ! i \<le> clock s
          then reenable (s\<lparr>timeouts := drop_nth i (timeouts s)\<rparr>)
          else s
      | Advance d \<Rightarrow> s\<lparr>clock := clock s + d\<rparr>)"

fun run :: "event list \<Rightarrow> page \<Rightarrow> page" where
  "run [] s = s"
| "run (e # es) s = run es (step e s)"

text \<open>
  In static/script.js only \<^verbatim>\<open>checkStatus\<close>, \<^verbatim>\<open>loadQuestion\<close> and
  \<^verbatim>\<open>submitAnswer\<close> wait for a fetch; the two other continuations never arise there.
\<close>

definition static_resume :: "cont \<Rightarrow> response \<Rightarrow> page \<Rightarrow> page" where
  "static_resume k r s =
     (case k of
        K_checkStatus \<Rightarrow> static_checkStatus_k r s
      | K_updateQuestionList \<Rightarrow> s
      | K_loadQuestion q \<Rightarrow> static_loadQuestion_k q r s
      | K_submitAnswer q a \<Rightarrow> static_submitAnswer_k q a r s
      | K_checkClearCondition \<Rightarrow> s)"

definition static_step :: "event \<Rightarrow> page \<Rightarrow> page" where
  "static_step e s =
     (case e of
        Tick \<Rightarrow> static_checkStatus s
      | Click_question i \<Rightarrow>
          if i < length (questionListDiv s) \<and> \<not> btn_disabled (questionListDiv s ! i)
          then (case btn_onclick (questionListDiv s ! i) of
                  None \<Rightarrow> s
                | Some q \<Rightarrow> static_loadQuestion q s)
          else s
      | Click_option i \<Rightarrow>
          if i < length (optionsContainer s) \<and> \<not> opt_disabled (optionsContainer s ! i)
          then (case opt_onclick (optionsContainer s ! i) of
                  (q, a) \<Rightarrow> static_submitAnswer q a s)
          else s
      | Settle i r \<Rightarrow>
          if i < length (awaiting s)
          then static_resume (awaiting s ! i) r (s\<lparr>awaiting := drop_nth i (awaiting s)\<rparr>)
          else s
      | Timeout i \<Rightarrow>
          if i < length (timeouts s) \<and> timeouts s ! i \<le> clock s
          then reenable (s\<lparr>timeouts := drop_nth i (timeouts s)\<rparr>)
          else s
      | Advance d \<Rightarrow> s\<lparr>clock := clock s + d\<rparr>)"

fun static_run :: "event list \<Rightarrow> page \<Rightarrow> page" where
  "static_run [] s = s"
| "static_run (e # es) s = static_run es (static_step e s)"

text \<open>
  The \<^verbatim>\<open>DOMContentLoaded\<close> handler sets the two variables and calls
  \<^verbatim>\<open>checkStatus\<close>; its argument is the page as the document gives it.
\<close>

definition boot :: "page \<Rightarrow> page" where
  "boot doc = checkStatus (doc\<lparr>totalQuestions := Some 0, correctAnswers := {||}\<rparr>)"

definition static_boot :: "page \<Rightarrow> page" where
  "static_boot doc = static_checkStatus (doc\<lparr>totalQuestions := Some 0, correctAnswers := {||}\<rparr>)"

text \<open>A document with both panels hidden and nothing in flight, for the examples.\<close>

definition blank :: page where
  "blank =
     \<lparr>totalQuestions = None, correctAnswers = {||}, questionListDiv = [],
      quizContainer_hidden = True, quiz_image = None, questionText = Bare_label 0,
      optionsContainer = [], resultMessage_text = No_notice, resultMessage_class = [],
      clearMessage_hidden = True, awaiting = [], requests = [], timeouts = [], clock = 0,
      console = []\<rparr>"

definition no_body :: body where
  "no_body =
     \<lparr>total_questions = None, unlocked_question = None, questions = None,
      question_text = None, options = None, image_name = None, error_text = None,
      correct = None\<rparr>"

section \<open>Cooldown\<close>

text \<open>
  What holds from an incorrect verdict until its callback is due at \<open>due\<close>: no pending
  callback is due earlier, \<open>due\<close> is at most 2000 ahead, no \<^verbatim>\<open>loadQuestion\<close> is
  waiting for its fetch, and before \<open>due\<close> every option control is disabled.
\<close>

fun is_load :: "cont \<Rightarrow> bool" where
  "is_load (K_loadQuestion q) = True"
| "is_load _ = False"

fun opens_question :: "event \<Rightarrow> bool" where
  "opens_question (Click_question i) = True"
| "opens_question _ = False"

definition cooling :: "nat \<Rightarrow> page \<Rightarrow> bool" where
  "cooling due s =
     (list_all (\<lambda>t. due \<le> t) (timeouts s)
      \<and> due \<le> clock s + 2000
      \<and> \<not> list_ex is_load (awaiting s)
      \<and> (clock s < due \<longrightarrow> list_all opt_disabled (optionsContainer s)))"

section \<open>Examples\<close>

text \<open>Question 2 on display with two options.\<close>

definition two_options :: page where
  "two_options = blank\<lparr>optionsContainer := [option_button 2 ''a'', option_button 2 ''b'']\<rparr>"

definition wrong :: response where
  "wrong = Response True (Json (no_body\<lparr>correct := Some False\<rparr>))"

text \<open>
  Two clicks before any reply; the first verdict arrives at time 0, the second at 1500.
\<close>

definition two_wrong_answers :: "event list" where
  "two_wrong_answers =
     [Click_option 0, Click_option 1, Settle 0 wrong, Advance 1500, Settle 0 wrong]"

text \<open>Question 1 answered correctly, then reported as not public by the next poll.\<close>

definition answered_one :: page where
  "answered_one =
     submitAnswer_k 1 ''a'' (Response True (Json (no_body\<lparr>correct := Some True\<rparr>))) blank"

definition withdrawn :: "event list" where
  "withdrawn =
     [Settle 1 (Response True
        (Json (no_body\<lparr>total_questions := Some 1, unlocked_question := Some 0\<rparr>))),
      Settle 1 (Response True
        (Json (no_body\<lparr>questions := Some [\<lparr>qid = 1, is_public = False\<rparr>]\<rparr>))),
      Settle 0 (Response True (Json (no_body\<lparr>unlocked_question := Some 0\<rparr>)))]"

definition three_questions :: body where
  "three_questions =
     no_body\<lparr>questions := Some [\<lparr>qid = 3, is_public = True\<rparr>, \<lparr>qid = 1, is_public = False\<rparr>,
                               \<lparr>qid = 2, is_public = True\<rparr>]\<rparr>"

text \<open>
  Two polls on a fresh page. In the first run the timer's poll starts while the question
  set of the first poll is still in flight; in the second run it starts after the first
  poll has drawn the list.
\<close>

definition status_three :: response where
  "status_three =
     Response True (Json (no_body\<lparr>total_questions := Some 3, unlocked_question := Some 2\<rparr>))"

definition list_three :: response where
  "list_three = Response True (Json three_questions)"

definition overlapping_polls :: "event list" where
  "overlapping_polls =
     [Settle 0 status_three, Tick, Settle 1 status_three, Settle 0 list_three,
      Settle 0 list_three]"

definition consecutive_polls :: "event list" where
  "consecutive_polls =
     [Settle 0 status_three, Settle 0 list_three, Tick, Settle 0 status_three,
      Settle 0 list_three]"

text \<open>
  A whole session on a fresh page: one public question is listed, opened and answered
  correctly, and the evaluation and the poll that follow are answered.
\<close>

definition status_one :: response where
  "status_one =
     Response True (Json (no_body\<lparr>total_questions := Some 1, unlocked_question := Some 1\<rparr>))"

definition list_one :: response where
  "list_one = Response True (Json (no_body\<lparr>questions := Some [\<lparr>qid = 1, is_public = True\<rparr>]\<rparr>))"

definition detail_one :: response where
  "detail_one =
     Response True (Json (no_body\<lparr>question_text := Some ''q'', options := Some [''a'', ''b'']\<rparr>))"

definition right :: response where
  "right = Response True (Json (no_body\<lparr>correct := Some True\<rparr>))"

definition session :: "event list" where
  "session =
     [Settle 0 status_one, Settle 0 list_one, Click_question 0, Settle 0 detail_one,
      Click_option 1, Settle 0 right, Settle 0 status_one, Settle 0 status_one,
      Settle 0 list_one]"

section \<open>Facts about the examples\<close>

lemma blank_fields:
  "totalQuestions blank = None" "correctAnswers blank = {||}" "questionListDiv blank = []"
  "quizContainer_hidden blank" "quiz_image blank = None" "optionsContainer blank = []"
  "resultMessage_text blank = No_notice" "resultMessage_class blank = []"
  "clearMessage_hidden blank" "awaiting blank = []" "requests blank = []"
  "timeouts blank = []" "clock blank = 0" "console blank = []"
  by (simp_all add: blank_def)

lemma session_clears:
  "correctAnswers (run session (boot blank)) = {|1|}
   \<and> \<not> clearMessage_hidden (run session (boot blank))
   \<and> quizContainer_hidden (run session (boot blank))
   \<and> questionListDiv (run session (boot blank)) =
       [\<lparr>btn_text = Open_label 1, btn_classes = [''question-btn'', ''answered''],
         btn_disabled = False, btn_onclick = Some 1\<rparr>]
   \<and> requests (run session (boot blank)) =
       [Get_status, Get_all_questions, Get_question 1, Post_answer 1 ''b'', Get_status,
        Get_status, Get_all_questions]
   \<and> awaiting (run session (boot blank)) = []"
  by (simp add: session_def status_one_def list_one_def detail_one_def right_def boot_def
      step_def resume_def checkStatus_def checkStatus_k_def updateQuestionList_def
      updateQuestionList_k_def loadQuestion_def loadQuestion_k_def submitAnswer_def
      submitAnswer_k_def verdict_def set_disabled_def checkClearCondition_def
      checkClearCondition_k_def question_button_def option_button_def fetch_def drop_nth_def
      blank_def no_body_def fcard_finsert_if)

section \<open>The clear condition\<close>

lemma checkClearCondition_k_decoded:
  "checkClearCondition_k (Response ok (Json d)) s =
     (if (\<exists>n. unlocked_question d = Some n \<and> 0 < n \<and> int (fcard (correctAnswers s)) = n)
      then s\<lparr>quizContainer_hidden := True, clearMessage_hidden := False\<rparr>
      else s\<lparr>clearMessage_hidden := True\<rparr>)"
  by (cases "unlocked_question d") (auto simp: checkClearCondition_k_def)

lemma checkClearCondition_k_failed:
  "r = Rejected \<or> r = Response ok Not_json \<or> r = Response ok Json_null \<Longrightarrow>
   checkClearCondition_k r s = console_error Err_checking_clear s"
  by (auto simp: checkClearCondition_k_def)

lemma checkClearCondition_k_cache:
  "checkClearCondition_k r (s\<lparr>totalQuestions := t\<rparr>) =
     (checkClearCondition_k r s)\<lparr>totalQuestions := t\<rparr>"
  by (simp add: checkClearCondition_k_def console_error_def
      split: response.splits decoded.splits option.splits)

lemma checkClearCondition_k_answers:
  "fcard A = fcard (correctAnswers s) \<Longrightarrow>
   checkClearCondition_k r (s\<lparr>correctAnswers := A\<rparr>) =
     (checkClearCondition_k r s)\<lparr>correctAnswers := A\<rparr>"
  by (simp add: checkClearCondition_k_def console_error_def
      split: response.splits decoded.splits option.splits)

text \<open>
  The evaluation of static/script.js sends nothing: it compares with the variable
  \<^verbatim>\<open>totalQuestions\<close> that the last poll left, and it never hides the banner.
\<close>

lemma static_checkClearCondition_cached:
  "requests (static_checkClearCondition s) = requests s
   \<and> awaiting (static_checkClearCondition s) = awaiting s
   \<and> (\<not> clearMessage_hidden s \<longrightarrow> \<not> clearMessage_hidden (static_checkClearCondition s))
   \<and> (totalQuestions s = Some n \<and> 0 < n \<and> int (fcard (correctAnswers s)) = n \<longrightarrow>
        \<not> clearMessage_hidden (static_checkClearCondition s))"
  by (simp add: static_checkClearCondition_def)

text \<open>
  C1, as the code has it. When the status fetch of script.js's
  \<^verbatim>\<open>checkClearCondition\<close> yields a decoded value, the banner is shown afterwards
  exactly when the count in that value is greater than zero and equals the size of
  \<^verbatim>\<open>correctAnswers\<close>, the quiz panel is hidden whenever the banner is shown, and the
  banner is hidden otherwise; the variable \<^verbatim>\<open>totalQuestions\<close> has no influence on
  the outcome. When the fetch is rejected, or the reply is not JSON or is
  \<^verbatim>\<open>null\<close>, the banner and the panel stay as they were.
\<close>

theorem checkClearCondition_banner:
  "(\<not> clearMessage_hidden (checkClearCondition_k (Response ok (Json d)) s) \<longleftrightarrow>
      (\<exists>n. unlocked_question d = Some n \<and> 0 < n \<and> int (fcard (correctAnswers s)) = n))
   \<and> (\<not> clearMessage_hidden (checkClearCondition_k (Response ok (Json d)) s) \<longrightarrow>
        quizContainer_hidden (checkClearCondition_k (Response ok (Json d)) s))
   \<and> checkClearCondition_k r (s\<lparr>totalQuestions := t\<rparr>) =
        (checkClearCondition_k r s)\<lparr>totalQuestions := t\<rparr>
   \<and> (r = Rejected \<or> r = Response ok Not_json \<or> r = Response ok Json_null \<longrightarrow>
        clearMessage_hidden (checkClearCondition_k r s) = clearMessage_hidden s \<and>
        quizContainer_hidden (checkClearCondition_k r s) = quizContainer_hidden s)"
  using checkClearCondition_k_failed [of r ok s]
  by (auto simp: checkClearCondition_k_decoded checkClearCondition_k_cache console_error_def)

theorem checkClearCondition_banner_witness:
  "\<not> clearMessage_hidden
       (checkClearCondition_k (Response True (Json (no_body\<lparr>unlocked_question := Some 1\<rparr>)))
          (blank\<lparr>correctAnswers := {|4|}\<rparr>))
   \<and> quizContainer_hidden
       (checkClearCondition_k (Response True (Json (no_body\<lparr>unlocked_question := Some 1\<rparr>)))
          (blank\<lparr>correctAnswers := {|4|}\<rparr>))
   \<and> clearMessage_hidden
       (checkClearCondition_k (Response True Not_json) (blank\<lparr>correctAnswers := {|4|}\<rparr>))"
  using checkClearCondition_banner [of True "no_body\<lparr>unlocked_question := Some 1\<rparr>"
      "blank\<lparr>correctAnswers := {|4|}\<rparr>" "Response True Not_json" None]
  by (simp add: blank_fields fcard_finsert_if)

text \<open>
  C1 as stated fails when the fetch is rejected: a banner that is showing stays, although
  no count was fetched.
\<close>

theorem checkClearCondition_banner_stays_on_failure:
  "\<not> clearMessage_hidden
       (checkClearCondition_k Rejected
          (blank\<lparr>correctAnswers := {|1|}, clearMessage_hidden := False\<rparr>))"
  by (simp add: checkClearCondition_k_def console_error_def)

text \<open>
  C10. script.js's evaluation depends on \<^verbatim>\<open>correctAnswers\<close> through its size only:
  replacing the set by any set of the same size changes nothing else in the outcome. So
  whenever the fetched count is positive and equals that size the banner is shown and
  the panel hidden, whichever ids the set holds.
\<close>

theorem checkClearCondition_cardinality_only:
  "(fcard A = fcard (correctAnswers s) \<longrightarrow>
      checkClearCondition_k r (s\<lparr>correctAnswers := A\<rparr>) =
        (checkClearCondition_k r s)\<lparr>correctAnswers := A\<rparr>)
   \<and> (unlocked_question d = Some n \<and> 0 < n \<and> int (fcard (correctAnswers s)) = n \<longrightarrow>
        \<not> clearMessage_hidden (checkClearCondition_k (Response ok (Json d)) s) \<and>
        quizContainer_hidden (checkClearCondition_k (Response ok (Json d)) s))"
  by (simp add: checkClearCondition_k_answers checkClearCondition_k_decoded)

text \<open>
  The answered ids are 1 and 2, the questions now visible are 2 and 3: question 1 is no
  longer public and question 3 was never answered, and the banner is shown.
\<close>

theorem checkClearCondition_cardinality_only_witness:
  "fcard {|2, 3::int|} = fcard (correctAnswers (blank\<lparr>correctAnswers := {|1, 2|}\<rparr>))
   \<and> 1 |\<notin>| {|2, 3::int|} \<and> 3 |\<notin>| correctAnswers (blank\<lparr>correctAnswers := {|1, 2|}\<rparr>)
   \<and> \<not> clearMessage_hidden
        (checkClearCondition_k (Response True (Json (no_body\<lparr>unlocked_question := Some 2\<rparr>)))
           (blank\<lparr>correctAnswers := {|1, 2|}\<rparr>))"
  using checkClearCondition_cardinality_only [of "{|2, 3|}" "blank\<lparr>correctAnswers := {|1, 2|}\<rparr>"
      Rejected "no_body\<lparr>unlocked_question := Some 2\<rparr>" 2 True]
  by (simp add: fcard_finsert_if)

section \<open>Loading a question\<close>

text \<open>
  C4. For an id in \<^verbatim>\<open>correctAnswers\<close>, \<^verbatim>\<open>loadQuestion\<close> of either script sends no
  request and leaves nothing in flight, shows the already-answered notice and the bare
  label of the question.
\<close>

theorem loadQuestion_answered:
  "q_id |\<in>| correctAnswers s \<Longrightarrow>
     requests (loadQuestion q_id s) = requests s
   \<and> awaiting (loadQuestion q_id s) = awaiting s
   \<and> resultMessage_text (loadQuestion q_id s) = Already_answered
   \<and> questionText (loadQuestion q_id s) = Bare_label q_id
   \<and> requests (static_loadQuestion q_id s) = requests s
   \<and> awaiting (static_loadQuestion q_id s) = awaiting s
   \<and> resultMessage_text (static_loadQuestion q_id s) = Already_answered
   \<and> questionText (static_loadQuestion q_id s) = Bare_label q_id"
  by (simp add: loadQuestion_def static_loadQuestion_def)

theorem loadQuestion_answered_witness:
  "7 |\<in>| correctAnswers (blank\<lparr>correctAnswers := {|7|}\<rparr>)
   \<and> requests (loadQuestion 7 (blank\<lparr>correctAnswers := {|7|}\<rparr>)) = []
   \<and> resultMessage_text (loadQuestion 7 (blank\<lparr>correctAnswers := {|7|}\<rparr>)) = Already_answered
   \<and> requests (static_loadQuestion 7 (blank\<lparr>correctAnswers := {|7|}\<rparr>)) = []"
  using loadQuestion_answered [of 7 "blank\<lparr>correctAnswers := {|7|}\<rparr>"]
  by (simp add: blank_fields)

text \<open>Every way through script.js's \<^verbatim>\<open>loadQuestion\<close> ends with the panel shown.\<close>

lemma loadQuestion_panel_shown:
  "\<not> quizContainer_hidden (loadQuestion_k q_id r s)
   \<and> (q_id |\<in>| correctAnswers s \<longrightarrow> \<not> quizContainer_hidden (loadQuestion q_id s))"
  by (simp add: loadQuestion_k_def loadQuestion_def load_failed_def console_error_def Let_def
      split: response.splits decoded.splits option.splits)

text \<open>
  C9 fails in static/script.js: its \<^verbatim>\<open>catch\<close> block only writes to the console. A
  click on the button of question 1 while the panel is hidden, and a rejected fetch,
  leave the panel hidden.
\<close>

theorem static_loadQuestion_failure_keeps_panel_hidden:
  "quizContainer_hidden
     (static_run [Click_question 0, Settle 0 Rejected]
        (blank\<lparr>questionListDiv := [static_question_button (Some 1) {||} 1]\<rparr>))
   \<and> requests
     (static_run [Click_question 0, Settle 0 Rejected]
        (blank\<lparr>questionListDiv := [static_question_button (Some 1) {||} 1]\<rparr>)) = [Get_question 1]"
  by (simp add: static_step_def static_resume_def static_loadQuestion_def
      static_loadQuestion_k_def static_question_button_def console_error_def fetch_def
      drop_nth_def blank_def)

section \<open>Submitting an answer\<close>


lemma verdict_awaiting:
  "awaiting (verdict q_id d s) = awaiting s \<and> requests (verdict q_id d s) = requests s"
  by (simp add: verdict_def set_disabled_def setTimeout_def Let_def)

lemma static_checkClearCondition_awaiting:
  "awaiting (static_checkClearCondition s) = awaiting s \<and>
   requests (static_checkClearCondition s) = requests s"
  by (simp add: static_checkClearCondition_def)






text \<open>
  C7, as the code has it. On a rejected fetch script.js's \<^verbatim>\<open>submitAnswer\<close> writes to
  the console, shows the submission-failure notice with the class \<^verbatim>\<open>incorrect\<close>, and
  changes nothing else: the option controls are as they were.
\<close>

theorem submitAnswer_rejected:
  "submitAnswer_k q_id answer Rejected s =
     (console_error Err_submitting s)
       \<lparr>resultMessage_text := Submit_error, resultMessage_class := ''incorrect''\<rparr>
   \<and> resultMessage_text (submitAnswer_k q_id answer Rejected s) = Submit_error
   \<and> optionsContainer (submitAnswer_k q_id answer Rejected s) = optionsContainer s"
  by (simp add: submitAnswer_k_def submit_failed_def console_error_def)

text \<open>
  C7 as stated fails: a click on an enabled option whose fetch is rejected leaves both
  options enabled.
\<close>

theorem submitAnswer_rejected_leaves_options_enabled:
  "map opt_disabled (optionsContainer
     (run [Click_option 0, Settle 0 Rejected]
        (blank\<lparr>optionsContainer := [option_button 1 ''a'', option_button 1 ''b'']\<rparr>))) =
     [False, False]"
  by (simp add: step_def resume_def submitAnswer_def submitAnswer_k_def submit_failed_def
      console_error_def fetch_def drop_nth_def option_button_def blank_def)

text \<open>static/script.js shows no notice on that path: it only writes to the console.\<close>

lemma static_submitAnswer_rejected:
  "static_submitAnswer_k q_id answer Rejected s = console_error Err_submitting s"
  by (simp add: static_submitAnswer_k_def)

section \<open>Failures and the session state\<close>

lemma checkStatus_k_failed:
  "r = Rejected \<or> r = Response ok Not_json \<or> r = Response ok Json_null \<Longrightarrow>
     checkStatus_k r s = console_error Err_fetching_status s
   \<and> static_checkStatus_k r s = console_error Err_fetching_status s"
  by (auto simp: checkStatus_k_def static_checkStatus_k_def)

text \<open>
  C6 fails in \<^verbatim>\<open>checkStatus\<close>, which never looks at \<^verbatim>\<open>response.ok\<close>: a poll
  answered with an error status and a JSON value without \<^verbatim>\<open>total_questions\<close>
  overwrites the cached total 3 with \<^verbatim>\<open>undefined\<close>, in both scripts.
\<close>

theorem checkStatus_error_reply_overwrites_total:
  "totalQuestions (blank\<lparr>totalQuestions := Some 3\<rparr>) = Some 3
   \<and> totalQuestions
       (checkStatus_k (Response False (Json (no_body\<lparr>error_text := Some ''unavailable''\<rparr>)))
          (blank\<lparr>totalQuestions := Some 3\<rparr>)) = None
   \<and> totalQuestions
       (static_checkStatus_k (Response False (Json (no_body\<lparr>error_text := Some ''unavailable''\<rparr>)))
          (blank\<lparr>totalQuestions := Some 3\<rparr>)) = None"
  by (simp add: checkStatus_k_def static_checkStatus_k_def updateQuestionList_def
      static_updateQuestionList_def fetch_def no_body_def blank_def)

section \<open>The answered set only grows\<close>

lemma fetch_answers: "correctAnswers (fetch req k s) = correctAnswers s"
  by (simp add: fetch_def)

lemma verdict_answers:
  "correctAnswers (verdict q_id d s) =
     (if correct d = Some True then finsert q_id (correctAnswers s) else correctAnswers s)"
  by (simp add: verdict_def set_disabled_def setTimeout_def Let_def)

lemma updateQuestionList_k_answers:
  "correctAnswers (updateQuestionList_k r s) = correctAnswers s"
  by (simp add: updateQuestionList_k_def console_error_def
      split: response.splits decoded.splits option.splits)

lemma checkStatus_k_answers: "correctAnswers (checkStatus_k r s) = correctAnswers s"
  by (simp add: checkStatus_k_def updateQuestionList_def fetch_def console_error_def
      split: response.splits decoded.splits)

lemma loadQuestion_answers: "correctAnswers (loadQuestion q_id s) = correctAnswers s"
  by (simp add: loadQuestion_def fetch_def)

lemma loadQuestion_k_answers: "correctAnswers (loadQuestion_k q_id r s) = correctAnswers s"
  by (simp add: loadQuestion_k_def load_failed_def console_error_def Let_def
      split: response.splits decoded.splits option.splits)

lemma checkClearCondition_k_keeps_answers:
  "correctAnswers (checkClearCondition_k r s) = correctAnswers s"
  by (simp add: checkClearCondition_k_def console_error_def
      split: response.splits decoded.splits option.splits)

lemma submitAnswer_k_answers:
  "correctAnswers (submitAnswer_k q_id answer r s) =
     (case r of
        Response ok (Json d) \<Rightarrow>
          if correct d = Some True then finsert q_id (correctAnswers s) else correctAnswers s
      | _ \<Rightarrow> correctAnswers s)"
  by (simp add: submitAnswer_k_def submit_failed_def console_error_def set_disabled_def
      checkStatus_def checkClearCondition_def fetch_def verdict_answers
      split: response.splits decoded.splits)

lemma resume_answers: "correctAnswers s |\<subseteq>| correctAnswers (resume k r s)"
  by (auto simp: resume_def checkStatus_k_answers updateQuestionList_k_answers
      loadQuestion_k_answers submitAnswer_k_answers checkClearCondition_k_keeps_answers
      split: cont.splits response.splits decoded.splits)

lemma step_answers: "correctAnswers s |\<subseteq>| correctAnswers (step e s)"
proof (cases e)
  case (Settle i r)
  then show ?thesis
    using resume_answers [of "s\<lparr>awaiting := drop_nth i (awaiting s)\<rparr>" "awaiting s ! i" r]
    by (simp add: step_def)
qed (simp_all add: step_def checkStatus_def fetch_def loadQuestion_answers submitAnswer_def
    reenable_def set_disabled_def split: option.splits prod.splits)

lemma run_answers: "correctAnswers s |\<subseteq>| correctAnswers (run es s)"
proof (induction es arbitrary: s)
  case Nil
  show ?case by simp
next
  case (Cons e es)
  have "correctAnswers s |\<subseteq>| correctAnswers (step e s)" by (rule step_answers)
  also have "\<dots> |\<subseteq>| correctAnswers (run es (step e s))" by (rule Cons.IH)
  finally show ?case by simp
qed

lemma static_checkStatus_k_answers: "correctAnswers (static_checkStatus_k r s) = correctAnswers s"
  by (simp add: static_checkStatus_k_def static_updateQuestionList_def console_error_def
      split: response.splits decoded.splits)

lemma static_loadQuestion_answers: "correctAnswers (static_loadQuestion q_id s) = correctAnswers s"
  by (simp add: static_loadQuestion_def fetch_def)

lemma static_loadQuestion_k_answers:
  "correctAnswers (static_loadQuestion_k q_id r s) = correctAnswers s"
  by (simp add: static_loadQuestion_k_def console_error_def Let_def
      split: response.splits decoded.splits option.splits)

lemma static_checkClearCondition_answers:
  "correctAnswers (static_checkClearCondition s) = correctAnswers s"
  by (simp add: static_checkClearCondition_def)

lemma static_submitAnswer_k_answers:
  "correctAnswers (static_submitAnswer_k q_id answer r s) =
     (case r of
        Response ok (Json d) \<Rightarrow>
          if correct d = Some True then finsert q_id (correctAnswers s) else correctAnswers s
      | _ \<Rightarrow> correctAnswers s)"
  by (simp add: static_submitAnswer_k_def console_error_def set_disabled_def
      static_checkStatus_def static_checkClearCondition_answers fetch_def verdict_answers
      split: response.splits decoded.splits)

lemma static_resume_answers: "correctAnswers s |\<subseteq>| correctAnswers (static_resume k r s)"
  by (auto simp: static_resume_def static_checkStatus_k_answers
      static_loadQuestion_k_answers static_submitAnswer_k_answers
      split: cont.splits response.splits decoded.splits)

lemma static_step_answers: "correctAnswers s |\<subseteq>| correctAnswers (static_step e s)"
proof (cases e)
  case (Settle i r)
  then show ?thesis
    using static_resume_answers [of "s\<lparr>awaiting := drop_nth i (awaiting s)\<rparr>" "awaiting s ! i" r]
    by (simp add: static_step_def)
qed (simp_all add: static_step_def static_checkStatus_def fetch_def static_loadQuestion_answers
    static_submitAnswer_def reenable_def set_disabled_def split: option.splits prod.splits)

lemma static_run_answers: "correctAnswers s |\<subseteq>| correctAnswers (static_run es s)"
proof (induction es arbitrary: s)
  case Nil
  show ?case by simp
next
  case (Cons e es)
  have "correctAnswers s |\<subseteq>| correctAnswers (static_step e s)" by (rule static_step_answers)
  also have "\<dots> |\<subseteq>| correctAnswers (static_run es (static_step e s))" by (rule Cons.IH)
  finally show ?case by simp
qed

text \<open>
  C3. In both scripts a correct verdict for \<^verbatim>\<open>q_id\<close> puts \<^verbatim>\<open>q_id\<close> into
  \<^verbatim>\<open>correctAnswers\<close>, and an id in the set is still in it after any sequence of
  events: polls, clicks, timers, and fetches settling with any replies, among them
  replies that report the question as not public.
\<close>

theorem correctAnswers_permanent:
  "(correct d = Some True \<longrightarrow>
      q_id |\<in>| correctAnswers (submitAnswer_k q_id answer (Response ok (Json d)) s) \<and>
      q_id |\<in>| correctAnswers (static_submitAnswer_k q_id answer (Response ok (Json d)) s))
   \<and> (q_id |\<in>| correctAnswers s \<longrightarrow>
        q_id |\<in>| correctAnswers (run es s) \<and> q_id |\<in>| correctAnswers (static_run es s))"
  using run_answers [of s es] static_run_answers [of s es]
  by (auto simp: submitAnswer_k_answers static_submitAnswer_k_answers)

lemma withdrawn_list:
  "map btn_text (questionListDiv (run withdrawn answered_one)) = [Closed_label 1]"
  by (simp add: withdrawn_def answered_one_def step_def resume_def submitAnswer_k_def
      verdict_def set_disabled_def checkStatus_def checkClearCondition_def fetch_def
      checkStatus_k_def updateQuestionList_def updateQuestionList_k_def
      checkClearCondition_k_def question_button_def drop_nth_def blank_def no_body_def)

theorem correctAnswers_permanent_witness:
  "1 |\<in>| correctAnswers answered_one
   \<and> 1 |\<in>| correctAnswers (run withdrawn answered_one)
   \<and> map btn_text (questionListDiv (run withdrawn answered_one)) = [Closed_label 1]"
proof -
  have a: "1 |\<in>| correctAnswers answered_one"
    unfolding answered_one_def
    using correctAnswers_permanent [of "no_body\<lparr>correct := Some True\<rparr>" 1 "''a''" True blank "[]"]
    by simp
  have b: "1 |\<in>| correctAnswers (run withdrawn answered_one)"
    using a correctAnswers_permanent [of no_body 1 "''a''" True answered_one withdrawn]
    by simp
  show ?thesis
    using a b withdrawn_list by simp
qed

section \<open>The list of questions\<close>

lemma question_button_locked:
  "\<not> is_public q \<Longrightarrow>
     btn_disabled (question_button A q) \<and> btn_onclick (question_button A q) = None
   \<and> btn_classes (question_button A q) = [''question-btn'', ''locked'']"
  by (simp add: question_button_def)

lemma question_button_public:
  "is_public q \<Longrightarrow>
     \<not> btn_disabled (question_button A q) \<and> btn_onclick (question_button A q) = Some (qid q)
   \<and> (''answered'' \<in> set (btn_classes (question_button A q)) \<longleftrightarrow> qid q |\<in>| A)
   \<and> ''locked'' \<notin> set (btn_classes (question_button A q))"
  by (simp add: question_button_def)

lemma updateQuestionList_k_received:
  "questions d = Some qs \<Longrightarrow>
   updateQuestionList_k (Response True (Json d)) s =
     s\<lparr>questionListDiv := questionListDiv s @
          map (question_button (correctAnswers s)) (sort_key qid qs)\<rparr>"
  by (simp add: updateQuestionList_k_def)

lemma updateQuestionList_clears:
  "questionListDiv (updateQuestionList publicCount totalCount s) = []"
  by (simp add: updateQuestionList_def fetch_def)

lemma static_question_button_locked:
  "\<not> (\<exists>u. unlockedCount = Some u \<and> i \<le> u) \<Longrightarrow>
     btn_disabled (static_question_button unlockedCount A i)
   \<and> btn_onclick (static_question_button unlockedCount A i) = None
   \<and> btn_classes (static_question_button unlockedCount A i) = [''question-btn'', ''locked'']"
  by (cases unlockedCount) (simp_all add: static_question_button_def)

lemma static_question_button_public:
  "unlockedCount = Some u \<Longrightarrow> i \<le> u \<Longrightarrow>
     \<not> btn_disabled (static_question_button unlockedCount A i)
   \<and> btn_onclick (static_question_button unlockedCount A i) = Some i
   \<and> (''answered'' \<in> set (btn_classes (static_question_button unlockedCount A i)) \<longleftrightarrow> i |\<in>| A)"
  by (simp add: static_question_button_def)

text \<open>
  What script.js draws for one question set: it appends one button per question, the
  questions in ascending order of id (a stable sort of the set received). A question that
  is not public gets a disabled button with the class \<^verbatim>\<open>locked\<close> and no handler,
  a public one an enabled button whose handler calls \<^verbatim>\<open>loadQuestion\<close> with its
  id, with the class \<^verbatim>\<open>answered\<close> exactly when the id is in
  \<^verbatim>\<open>correctAnswers\<close>. The buttons are added to whatever the list holds when the
  reply arrives; the list was emptied when \<^verbatim>\<open>updateQuestionList\<close> was called.
\<close>

lemma updateQuestionList_k_appends:
  "questions d = Some qs \<Longrightarrow>
     questionListDiv (updateQuestionList_k (Response True (Json d)) s) =
       questionListDiv s @ map (question_button (correctAnswers s)) (sort_key qid qs)
   \<and> length (map (question_button (correctAnswers s)) (sort_key qid qs)) = length qs
   \<and> mset (sort_key qid qs) = mset qs
   \<and> sorted (map qid (sort_key qid qs))
   \<and> (\<forall>q. \<not> is_public q \<longrightarrow>
          btn_disabled (question_button (correctAnswers s) q) \<and>
          btn_onclick (question_button (correctAnswers s) q) = None \<and>
          ''locked'' \<in> set (btn_classes (question_button (correctAnswers s) q)))
   \<and> (\<forall>q. is_public q \<longrightarrow>
          \<not> btn_disabled (question_button (correctAnswers s) q) \<and>
          btn_onclick (question_button (correctAnswers s) q) = Some (qid q) \<and>
          ''locked'' \<notin> set (btn_classes (question_button (correctAnswers s) q)) \<and>
          (''answered'' \<in> set (btn_classes (question_button (correctAnswers s) q))
             \<longleftrightarrow> qid q |\<in>| correctAnswers s))"
  by (simp add: updateQuestionList_k_received question_button_locked question_button_public)

lemma updateQuestionList_k_appends_example:
  "questionListDiv (updateQuestionList_k (Response True (Json three_questions))
        (blank\<lparr>correctAnswers := {|2|}\<rparr>)) =
       [\<lparr>btn_text = Closed_label 1, btn_classes = [''question-btn'', ''locked''],
         btn_disabled = True, btn_onclick = None\<rparr>,
        \<lparr>btn_text = Open_label 2, btn_classes = [''question-btn'', ''answered''],
         btn_disabled = False, btn_onclick = Some 2\<rparr>,
        \<lparr>btn_text = Open_label 3, btn_classes = [''question-btn''],
         btn_disabled = False, btn_onclick = Some 3\<rparr>]"
proof -
  have q: "questions three_questions =
     Some [\<lparr>qid = 3, is_public = True\<rparr>, \<lparr>qid = 1, is_public = False\<rparr>, \<lparr>qid = 2, is_public = True\<rparr>]"
    by (simp add: three_questions_def no_body_def)
  from updateQuestionList_k_appends [OF q, of "blank\<lparr>correctAnswers := {|2|}\<rparr>"]
  have "questionListDiv (updateQuestionList_k (Response True (Json three_questions))
        (blank\<lparr>correctAnswers := {|2|}\<rparr>)) =
      map (question_button {|2|})
        (sort_key qid [\<lparr>qid = 3, is_public = True\<rparr>, \<lparr>qid = 1, is_public = False\<rparr>,
                       \<lparr>qid = 2, is_public = True\<rparr>])"
    by (simp add: blank_fields)
  then show ?thesis by (simp add: question_button_def)
qed

text \<open>
  static/script.js receives no question set and no \<^verbatim>\<open>is_public\<close>: it replaces the
  list, in one step, by one button for each number from 1 to the total, and a number is
  open exactly when it is at most the unlocked count.
\<close>

lemma static_updateQuestionList_buttons:
  "questionListDiv (static_updateQuestionList unlockedCount (Some n) s) =
       map (static_question_button unlockedCount (correctAnswers s)) [1..n]
   \<and> (\<forall>j. \<not> (\<exists>u. unlockedCount = Some u \<and> j \<le> u) \<longrightarrow>
          btn_disabled (static_question_button unlockedCount (correctAnswers s) j) \<and>
          btn_onclick (static_question_button unlockedCount (correctAnswers s) j) = None)
   \<and> (\<forall>j u. unlockedCount = Some u \<and> j \<le> u \<longrightarrow>
          \<not> btn_disabled (static_question_button unlockedCount (correctAnswers s) j) \<and>
          btn_onclick (static_question_button unlockedCount (correctAnswers s) j) = Some j \<and>
          (''answered'' \<in> set (btn_classes (static_question_button unlockedCount (correctAnswers s) j))
             \<longleftrightarrow> j |\<in>| correctAnswers s))"
  using static_question_button_locked [of unlockedCount _ "correctAnswers s"]
    static_question_button_public [of unlockedCount _ _ "correctAnswers s"]
  by (simp add: static_updateQuestionList_def)

text \<open>Two polls of script.js, one after the other, leave one button per question.\<close>

lemma consecutive_polls_list:
  "map btn_text (questionListDiv (run consecutive_polls (boot blank))) =
     [Closed_label 1, Open_label 2, Open_label 3]"
  by (simp add: consecutive_polls_def status_three_def list_three_def three_questions_def
      boot_def step_def resume_def checkStatus_def checkStatus_k_def updateQuestionList_def
      updateQuestionList_k_def question_button_def fetch_def drop_nth_def blank_def no_body_def)

text \<open>
  C8 fails in script.js when two polls overlap. \<^verbatim>\<open>updateQuestionList\<close> empties the
  list before its \<^verbatim>\<open>await\<close> (line 40) and appends the buttons after it (line 68), so
  when the second poll is called before the question set of the first has arrived, both
  sets are appended to the same list: three questions are received and six buttons are
  on the page, every question twice, and the ids are not in ascending order.
\<close>

theorem overlapping_polls_duplicate_buttons:
  "requests (run overlapping_polls (boot blank)) =
     [Get_status, Get_all_questions, Get_status, Get_all_questions]
   \<and> awaiting (run overlapping_polls (boot blank)) = []
   \<and> map btn_text (questionListDiv (run overlapping_polls (boot blank))) =
       [Closed_label 1, Open_label 2, Open_label 3, Closed_label 1, Open_label 2, Open_label 3]"
  by (simp add: overlapping_polls_def status_three_def list_three_def three_questions_def
      boot_def step_def resume_def checkStatus_def checkStatus_k_def updateQuestionList_def
      updateQuestionList_k_def question_button_def fetch_def drop_nth_def blank_def no_body_def)

section \<open>The cooldown after an incorrect verdict\<close>

lemma all_disabled: "list_all opt_disabled (map (\<lambda>b. b\<lparr>opt_disabled := True\<rparr>) xs)"
  by (induction xs) simp_all

lemma all_enabled: "list_all (\<lambda>b. \<not> opt_disabled b) (map (\<lambda>b. b\<lparr>opt_disabled := False\<rparr>) xs)"
  by (induction xs) simp_all

lemma set_drop_nth: "set (drop_nth i xs) \<subseteq> set xs"
  by (auto simp: drop_nth_def dest: in_set_takeD in_set_dropD)

lemma cooling_checkStatus_k: "cooling due s \<Longrightarrow> cooling due (checkStatus_k r s)"
  by (auto simp: cooling_def checkStatus_k_def updateQuestionList_def fetch_def
      console_error_def split: response.splits decoded.splits)

lemma cooling_updateQuestionList_k: "cooling due s \<Longrightarrow> cooling due (updateQuestionList_k r s)"
  by (auto simp: cooling_def updateQuestionList_k_def console_error_def
      split: response.splits decoded.splits option.splits)

lemma cooling_checkClearCondition_k:
  "cooling due s \<Longrightarrow> cooling due (checkClearCondition_k r s)"
  by (auto simp: cooling_def checkClearCondition_k_def console_error_def
      split: response.splits decoded.splits option.splits)

lemma cooling_verdict: "cooling due s \<Longrightarrow> cooling due (verdict q_id d s)"
  by (auto simp: cooling_def verdict_def set_disabled_def setTimeout_def Let_def all_disabled)

lemma cooling_submitAnswer_k: "cooling due s \<Longrightarrow> cooling due (submitAnswer_k q_id answer r s)"
proof (cases r)
  case Rejected
  assume "cooling due s"
  with Rejected show ?thesis
    by (simp add: cooling_def submitAnswer_k_def submit_failed_def console_error_def)
next
  case (Response ok dec)
  assume c: "cooling due s"
  show ?thesis
  proof (cases dec)
    case Not_json
    with Response c show ?thesis
      by (simp add: cooling_def submitAnswer_k_def submit_failed_def console_error_def)
  next
    case Json_null
    with Response c show ?thesis
      by (simp add: cooling_def submitAnswer_k_def submit_failed_def console_error_def
          set_disabled_def all_disabled)
  next
    case (Json d)
    have "cooling due (verdict q_id d s)" using c by (rule cooling_verdict)
    then have "cooling due (checkStatus (checkClearCondition (verdict q_id d s)))"
      by (simp add: cooling_def checkStatus_def checkClearCondition_def fetch_def)
    with Response Json show ?thesis by (simp add: submitAnswer_k_def)
  qed
qed

lemma cooling_resume:
  "cooling due s \<Longrightarrow> \<not> is_load k \<Longrightarrow> cooling due (resume k r s)"
  by (cases k)
    (simp_all add: resume_def cooling_checkStatus_k cooling_updateQuestionList_k
      cooling_submitAnswer_k cooling_checkClearCondition_k)

lemma cooling_dequeue:
  "cooling due s \<Longrightarrow> cooling due (s\<lparr>awaiting := drop_nth i (awaiting s)\<rparr>)"
  using set_drop_nth [of i "awaiting s"]
  by (auto simp: cooling_def list_ex_iff)

lemma cooling_step:
  assumes c: "cooling due s" and e: "\<not> opens_question e"
  shows "cooling due (step e s)"
proof (cases e)
  case Tick
  with c show ?thesis by (simp add: step_def cooling_def checkStatus_def fetch_def)
next
  case (Click_question i)
  with e show ?thesis by simp
next
  case (Click_option i)
  with c show ?thesis
    by (simp add: step_def cooling_def submitAnswer_def fetch_def split: prod.splits)
next
  case (Settle i r)
  show ?thesis
  proof (cases "i < length (awaiting s)")
    case True
    then have "awaiting s ! i \<in> set (awaiting s)" by simp
    with c have k: "\<not> is_load (awaiting s ! i)" by (auto simp: cooling_def list_ex_iff)
    have "cooling due (s\<lparr>awaiting := drop_nth i (awaiting s)\<rparr>)"
      using c by (rule cooling_dequeue)
    then have "cooling due (resume (awaiting s ! i) r (s\<lparr>awaiting := drop_nth i (awaiting s)\<rparr>))"
      using k by (rule cooling_resume)
    with Settle True show ?thesis by (simp add: step_def)
  next
    case False
    with Settle c show ?thesis by (simp add: step_def)
  qed
next
  case (Timeout i)
  show ?thesis
  proof (cases "i < length (timeouts s) \<and> timeouts s ! i \<le> clock s")
    case True
    then have "timeouts s ! i \<in> set (timeouts s)" by simp
    with c have "due \<le> timeouts s ! i" by (auto simp: cooling_def list_all_iff)
    with True have late: "due \<le> clock s" by simp
    have "set (drop_nth i (timeouts s)) \<subseteq> set (timeouts s)" by (rule set_drop_nth)
    with c late have "cooling due (reenable (s\<lparr>timeouts := drop_nth i (timeouts s)\<rparr>))"
      by (auto simp: cooling_def reenable_def set_disabled_def list_all_iff)
    with Timeout True show ?thesis by (simp add: step_def)
  next
    case False
    with Timeout c show ?thesis by (auto simp: step_def)
  qed
next
  case (Advance d)
  with c show ?thesis by (simp add: step_def cooling_def)
qed

lemma cooling_run:
  "cooling due s \<Longrightarrow> \<not> list_ex opens_question es \<Longrightarrow> cooling due (run es s)"
proof (induction es arbitrary: s)
  case Nil
  then show ?case by simp
next
  case (Cons e es)
  from Cons.prems have "cooling due (step e s)" by (simp add: cooling_step)
  moreover from Cons.prems have "\<not> list_ex opens_question es" by simp
  ultimately show ?case using Cons.IH by simp
qed

lemma verdict_incorrect:
  "correct d \<noteq> Some True \<Longrightarrow>
     list_all opt_disabled (optionsContainer (verdict q_id d s))
   \<and> resultMessage_text (verdict q_id d s) = Incorrect_notice
   \<and> timeouts (verdict q_id d s) = timeouts s @ [clock s + 2000]
   \<and> clock (verdict q_id d s) = clock s"
  by (simp add: verdict_def set_disabled_def setTimeout_def Let_def all_disabled)

lemma submitAnswer_k_incorrect:
  "correct d \<noteq> Some True \<Longrightarrow>
     list_all opt_disabled (optionsContainer (submitAnswer_k q_id answer (Response ok (Json d)) s))
   \<and> resultMessage_text (submitAnswer_k q_id answer (Response ok (Json d)) s) = Incorrect_notice
   \<and> timeouts (submitAnswer_k q_id answer (Response ok (Json d)) s) =
       timeouts s @ [clock s + 2000]
   \<and> clock (submitAnswer_k q_id answer (Response ok (Json d)) s) = clock s"
  using verdict_incorrect [of d q_id s]
  by (simp add: submitAnswer_k_def checkStatus_def checkClearCondition_def fetch_def)

lemma cooling_after_incorrect:
  assumes "correct d \<noteq> Some True" and "timeouts s = []" and "\<not> list_ex is_load (awaiting s)"
  shows "cooling (clock s + 2000) (submitAnswer_k q_id answer (Response ok (Json d)) s)"
  using submitAnswer_k_incorrect [OF assms(1), of q_id answer ok s] assms(2,3)
  by (simp add: cooling_def submitAnswer_k_def checkStatus_def checkClearCondition_def
      fetch_def verdict_awaiting)

lemma disabled_during_cooldown:
  assumes "correct d \<noteq> Some True" and "timeouts s = []" and "\<not> list_ex is_load (awaiting s)"
    and "\<not> list_ex opens_question es"
    and "clock (run es (submitAnswer_k q_id answer (Response ok (Json d)) s)) < clock s + 2000"
  shows "list_all opt_disabled
           (optionsContainer (run es (submitAnswer_k q_id answer (Response ok (Json d)) s)))"
proof -
  have "cooling (clock s + 2000) (submitAnswer_k q_id answer (Response ok (Json d)) s)"
    using assms(1-3) by (rule cooling_after_incorrect)
  then have "cooling (clock s + 2000)
      (run es (submitAnswer_k q_id answer (Response ok (Json d)) s))"
    using assms(4) by (rule cooling_run)
  with assms(5) show ?thesis by (simp add: cooling_def)
qed

lemma cooling_static_checkStatus_k: "cooling due s \<Longrightarrow> cooling due (static_checkStatus_k r s)"
  by (auto simp: cooling_def static_checkStatus_k_def static_updateQuestionList_def
      console_error_def split: response.splits decoded.splits)

lemma cooling_static_submitAnswer_k:
  "cooling due s \<Longrightarrow> cooling due (static_submitAnswer_k q_id answer r s)"
proof (cases r)
  case Rejected
  assume "cooling due s"
  with Rejected show ?thesis
    by (simp add: cooling_def static_submitAnswer_k_def console_error_def)
next
  case (Response ok dec)
  assume c: "cooling due s"
  show ?thesis
  proof (cases dec)
    case Not_json
    with Response c show ?thesis
      by (simp add: cooling_def static_submitAnswer_k_def console_error_def)
  next
    case Json_null
    with Response c show ?thesis
      by (simp add: cooling_def static_submitAnswer_k_def console_error_def
          set_disabled_def all_disabled)
  next
    case (Json d)
    have "cooling due (verdict q_id d s)" using c by (rule cooling_verdict)
    then have "cooling due (static_checkStatus (static_checkClearCondition (verdict q_id d s)))"
      by (simp add: cooling_def static_checkStatus_def static_checkClearCondition_def fetch_def)
    with Response Json show ?thesis by (simp add: static_submitAnswer_k_def)
  qed
qed

lemma cooling_static_resume:
  "cooling due s \<Longrightarrow> \<not> is_load k \<Longrightarrow> cooling due (static_resume k r s)"
  by (cases k)
    (simp_all add: static_resume_def cooling_static_checkStatus_k cooling_static_submitAnswer_k)

lemma cooling_static_step:
  assumes c: "cooling due s" and e: "\<not> opens_question e"
  shows "cooling due (static_step e s)"
proof (cases e)
  case Tick
  with c show ?thesis by (simp add: static_step_def cooling_def static_checkStatus_def fetch_def)
next
  case (Click_question i)
  with e show ?thesis by simp
next
  case (Click_option i)
  with c show ?thesis
    by (simp add: static_step_def cooling_def static_submitAnswer_def fetch_def
        split: prod.splits)
next
  case (Settle i r)
  show ?thesis
  proof (cases "i < length (awaiting s)")
    case True
    then have "awaiting s ! i \<in> set (awaiting s)" by simp
    with c have k: "\<not> is_load (awaiting s ! i)" by (auto simp: cooling_def list_ex_iff)
    have "cooling due (s\<lparr>awaiting := drop_nth i (awaiting s)\<rparr>)"
      using c by (rule cooling_dequeue)
    then have "cooling due
        (static_resume (awaiting s ! i) r (s\<lparr>awaiting := drop_nth i (awaiting s)\<rparr>))"
      using k by (rule cooling_static_resume)
    with Settle True show ?thesis by (simp add: static_step_def)
  next
    case False
    with Settle c show ?thesis by (simp add: static_step_def)
  qed
next
  case (Timeout i)
  show ?thesis
  proof (cases "i < length (timeouts s) \<and> timeouts s ! i \<le> clock s")
    case True
    then have "timeouts s ! i \<in> set (timeouts s)" by simp
    with c have "due \<le> timeouts s ! i" by (auto simp: cooling_def list_all_iff)
    with True have late: "due \<le> clock s" by simp
    have "set (drop_nth i (timeouts s)) \<subseteq> set (timeouts s)" by (rule set_drop_nth)
    with c late have "cooling due (reenable (s\<lparr>timeouts := drop_nth i (timeouts s)\<rparr>))"
      by (auto simp: cooling_def reenable_def set_disabled_def list_all_iff)
    with Timeout True show ?thesis by (simp add: static_step_def)
  next
    case False
    with Timeout c show ?thesis by (auto simp: static_step_def)
  qed
next
  case (Advance d)
  with c show ?thesis by (simp add: static_step_def cooling_def)
qed

lemma cooling_static_run:
  "cooling due s \<Longrightarrow> \<not> list_ex opens_question es \<Longrightarrow> cooling due (static_run es s)"
proof (induction es arbitrary: s)
  case Nil
  then show ?case by simp
next
  case (Cons e es)
  from Cons.prems have "cooling due (static_step e s)" by (simp add: cooling_static_step)
  moreover from Cons.prems have "\<not> list_ex opens_question es" by simp
  ultimately show ?case using Cons.IH by simp
qed

lemma static_submitAnswer_k_incorrect:
  "correct d \<noteq> Some True \<Longrightarrow>
     list_all opt_disabled
       (optionsContainer (static_submitAnswer_k q_id answer (Response ok (Json d)) s))
   \<and> resultMessage_text (static_submitAnswer_k q_id answer (Response ok (Json d)) s) =
       Incorrect_notice
   \<and> timeouts (static_submitAnswer_k q_id answer (Response ok (Json d)) s) =
       timeouts s @ [clock s + 2000]
   \<and> clock (static_submitAnswer_k q_id answer (Response ok (Json d)) s) = clock s"
  using verdict_incorrect [of d q_id s]
  by (simp add: static_submitAnswer_k_def static_checkStatus_def static_checkClearCondition_def
      fetch_def)

lemma static_disabled_during_cooldown:
  assumes "correct d \<noteq> Some True" and "timeouts s = []" and "\<not> list_ex is_load (awaiting s)"
    and "\<not> list_ex opens_question es"
    and "clock (static_run es (static_submitAnswer_k q_id answer (Response ok (Json d)) s))
           < clock s + 2000"
  shows "list_all opt_disabled
           (optionsContainer
              (static_run es (static_submitAnswer_k q_id answer (Response ok (Json d)) s)))"
proof -
  have "cooling (clock s + 2000) (static_submitAnswer_k q_id answer (Response ok (Json d)) s)"
    using static_submitAnswer_k_incorrect [OF assms(1), of q_id answer ok s] assms(2,3)
    by (simp add: cooling_def static_submitAnswer_k_def static_checkStatus_def
        static_checkClearCondition_awaiting fetch_def verdict_awaiting)
  then have "cooling (clock s + 2000)
      (static_run es (static_submitAnswer_k q_id answer (Response ok (Json d)) s))"
    using assms(4) by (rule cooling_static_run)
  with assms(5) show ?thesis by (simp add: cooling_def)
qed

lemma timeout_not_due:
  "i < length (timeouts s) \<Longrightarrow> clock s < timeouts s ! i \<Longrightarrow>
   step (Timeout i) s = s \<and> static_step (Timeout i) s = s"
  by (simp add: step_def static_step_def)

lemma timeout_due:
  "i < length (timeouts s) \<Longrightarrow> timeouts s ! i \<le> clock s \<Longrightarrow>
     step (Timeout i) s = reenable (s\<lparr>timeouts := drop_nth i (timeouts s)\<rparr>)
   \<and> static_step (Timeout i) s = reenable (s\<lparr>timeouts := drop_nth i (timeouts s)\<rparr>)
   \<and> length (timeouts (step (Timeout i) s)) + 1 = length (timeouts s)"
  by (simp add: step_def static_step_def reenable_def set_disabled_def drop_nth_def)

lemma reenable_effect:
  "list_all (\<lambda>b. \<not> opt_disabled b) (optionsContainer (reenable s))
   \<and> resultMessage_text (reenable s) = No_notice"
  by (simp add: reenable_def set_disabled_def all_enabled)

text \<open>
  C5, as the code has it. After an incorrect verdict, in both scripts, every option
  control is disabled at once, the failure notice is displayed, and exactly one callback
  is scheduled, due 2000 time units later. A callback does not run before it is due;
  when it runs it is removed, enables every option control and clears the notice. If no
  callback was pending at the verdict, no question is being loaded and none is opened,
  then whatever else happens, the controls are disabled in every state reached before
  2000 time units have passed.
\<close>

theorem incorrect_verdict_cooldown:
  "correct d \<noteq> Some True \<Longrightarrow>
     list_all opt_disabled (optionsContainer (submitAnswer_k q_id answer (Response ok (Json d)) s))
   \<and> resultMessage_text (submitAnswer_k q_id answer (Response ok (Json d)) s) = Incorrect_notice
   \<and> timeouts (submitAnswer_k q_id answer (Response ok (Json d)) s) =
       timeouts s @ [clock s + 2000]
   \<and> list_all opt_disabled
       (optionsContainer (static_submitAnswer_k q_id answer (Response ok (Json d)) s))
   \<and> resultMessage_text (static_submitAnswer_k q_id answer (Response ok (Json d)) s) =
       Incorrect_notice
   \<and> timeouts (static_submitAnswer_k q_id answer (Response ok (Json d)) s) =
       timeouts s @ [clock s + 2000]
   \<and> (i < length (timeouts s') \<and> clock s' < timeouts s' ! i \<longrightarrow>
        step (Timeout i) s' = s' \<and> static_step (Timeout i) s' = s')
   \<and> (i < length (timeouts s') \<and> timeouts s' ! i \<le> clock s' \<longrightarrow>
        step (Timeout i) s' = reenable (s'\<lparr>timeouts := drop_nth i (timeouts s')\<rparr>) \<and>
        static_step (Timeout i) s' = reenable (s'\<lparr>timeouts := drop_nth i (timeouts s')\<rparr>) \<and>
        length (timeouts (step (Timeout i) s')) + 1 = length (timeouts s'))
   \<and> list_all (\<lambda>b. \<not> opt_disabled b) (optionsContainer (reenable s'))
   \<and> resultMessage_text (reenable s') = No_notice
   \<and> (timeouts s = [] \<and> \<not> list_ex is_load (awaiting s) \<and> \<not> list_ex opens_question es \<longrightarrow>
        (clock (run es (submitAnswer_k q_id answer (Response ok (Json d)) s)) < clock s + 2000 \<longrightarrow>
           list_all opt_disabled
             (optionsContainer (run es (submitAnswer_k q_id answer (Response ok (Json d)) s)))) \<and>
        (clock (static_run es (static_submitAnswer_k q_id answer (Response ok (Json d)) s))
           < clock s + 2000 \<longrightarrow>
           list_all opt_disabled
             (optionsContainer
                (static_run es (static_submitAnswer_k q_id answer (Response ok (Json d)) s)))))"
  using submitAnswer_k_incorrect [of d q_id answer ok s]
    static_submitAnswer_k_incorrect [of d q_id answer ok s]
    timeout_not_due [of i s'] timeout_due [of i s'] reenable_effect [of s']
    disabled_during_cooldown [of d s es q_id answer ok]
    static_disabled_during_cooldown [of d s es q_id answer ok]
  by blast

lemma one_wrong_answer:
  "clock (run [Advance 1999, Timeout 0, Tick] (submitAnswer_k 2 ''a'' wrong two_options)) = 1999
   \<and> clock (static_run [Advance 1999, Timeout 0, Tick]
        (static_submitAnswer_k 2 ''a'' wrong two_options)) = 1999
   \<and> map opt_disabled (optionsContainer
       (run [Advance 2000, Timeout 0] (submitAnswer_k 2 ''a'' wrong two_options))) = [False, False]"
  by (simp add: two_options_def wrong_def step_def static_step_def
      submitAnswer_k_def static_submitAnswer_k_def verdict_def set_disabled_def setTimeout_def
      reenable_def checkStatus_def checkClearCondition_def static_checkStatus_def
      static_checkClearCondition_def fetch_def drop_nth_def option_button_def blank_def
      no_body_def)

theorem incorrect_verdict_cooldown_witness:
  "correct (no_body\<lparr>correct := Some False\<rparr>) \<noteq> Some True
   \<and> timeouts two_options = [] \<and> awaiting two_options = []
   \<and> timeouts (submitAnswer_k 2 ''a'' wrong two_options) = [2000]
   \<and> list_all opt_disabled (optionsContainer
       (run [Advance 1999, Timeout 0, Tick] (submitAnswer_k 2 ''a'' wrong two_options)))
   \<and> map opt_disabled (optionsContainer
       (run [Advance 2000, Timeout 0] (submitAnswer_k 2 ''a'' wrong two_options))) = [False, False]"
proof -
  have d: "correct (no_body\<lparr>correct := Some False\<rparr>) \<noteq> Some True" by simp
  have t: "timeouts two_options = []" "awaiting two_options = []" "clock two_options = 0"
    by (simp_all add: two_options_def blank_fields)
  have q: "\<not> list_ex opens_question [Advance 1999, Timeout 0, Tick]" by simp
  note c = incorrect_verdict_cooldown [OF d, of 2 "''a''" True two_options 0 two_options "[Advance 1999, Timeout 0, Tick]"]
  from c have "timeouts (submitAnswer_k 2 ''a'' wrong two_options) = [2000]"
    by (simp add: wrong_def t)
  moreover from c t q one_wrong_answer
  have "list_all opt_disabled (optionsContainer
       (run [Advance 1999, Timeout 0, Tick] (submitAnswer_k 2 ''a'' wrong two_options)))"
    by (simp add: wrong_def)
  ultimately show ?thesis using d t one_wrong_answer by simp
qed

text \<open>
  C5 as stated fails when two submissions overlap: the second verdict arrives at time
  1500, and at time 2000 the callback of the first enables the controls and clears the
  notice, 500 time units after the second verdict.
\<close>

theorem overlapping_cooldown_reenables_early:
  "clock (run two_wrong_answers two_options) = 1500
   \<and> timeouts (run two_wrong_answers two_options) = [2000, 3500]
   \<and> resultMessage_text (run two_wrong_answers two_options) = Incorrect_notice
   \<and> map opt_disabled (optionsContainer (run two_wrong_answers two_options)) = [True, True]
   \<and> clock (run (two_wrong_answers @ [Advance 500, Timeout 0]) two_options) = 2000
   \<and> map opt_disabled
       (optionsContainer (run (two_wrong_answers @ [Advance 500, Timeout 0]) two_options)) =
       [False, False]
   \<and> resultMessage_text (run (two_wrong_answers @ [Advance 500, Timeout 0]) two_options) =
       No_notice"
  by (simp add: two_wrong_answers_def two_options_def wrong_def step_def resume_def
      submitAnswer_def submitAnswer_k_def verdict_def set_disabled_def setTimeout_def
      reenable_def checkStatus_def checkClearCondition_def fetch_def drop_nth_def
      option_button_def blank_def no_body_def)

end
